theory Spec2Isabelle
  imports Complex_Main "HOL-Library.Multiset"
begin

section \<open>Python values, exceptions and strings\<close>

text \<open>
  The kernel tuner is Python. Its tunable parameter values are Python integers and
  booleans (\<open>param_value\<close>); floating-point parameter values are outside this model,
  since their \<open>str\<close> depends on the interpreter. Exceptions are values: a function that
  can raise returns \<open>exn + 'a\<close>, with \<open>Inl\<close> the exception. Only the message of an
  exception (\<open>str(e)\<close>) is ever inspected by the tuner.
\<close>

datatype exn_kind =
  Exception | SyntaxError | NameError | TypeError | ValueError | IndexError
  | ZeroDivisionError | AttributeError | LogicError

datatype exn = Raise exn_kind string

fun str_exn :: "exn \<Rightarrow> string" where
  "str_exn (Raise k msg) = msg"

datatype param_value = IntV int | BoolV bool

text \<open>\<open>bool\<close> is a subclass of \<open>int\<close> in Python: \<open>True\<close> counts as 1 in arithmetic
  and \<open>True == 1\<close> holds.\<close>

fun py_int_of :: "param_value \<Rightarrow> int" where
  "py_int_of (IntV i) = i"
| "py_int_of (BoolV b) = (if b then 1 else 0)"

definition py_eq :: "param_value \<Rightarrow> param_value \<Rightarrow> bool" where
  "py_eq v w = (py_int_of v = py_int_of w)"

subsection \<open>\<open>str\<close> of integers and booleans\<close>

definition digit_char :: "nat \<Rightarrow> char" where
  "digit_char d = ''0123456789'' ! d"

fun str_nat :: "nat \<Rightarrow> string" where
  "str_nat n = (if n < 10 then [digit_char n] else str_nat (n div 10) @ [digit_char (n mod 10)])"

declare str_nat.simps [simp del]

definition str_int :: "int \<Rightarrow> string" where
  "str_int i = (if i < 0 then CHR ''-'' # str_nat (nat (- i)) else str_nat (nat i))"

fun str_value :: "param_value \<Rightarrow> string" where
  "str_value (IntV i) = str_int i"
| "str_value (BoolV b) = (if b then ''True'' else ''False'')"

subsection \<open>\<open>sep.join\<close>, \<open>str.replace\<close> and the substring test \<open>in\<close>\<close>

fun str_join :: "string \<Rightarrow> string list \<Rightarrow> string" where
  "str_join sep [] = []"
| "str_join sep [x] = x"
| "str_join sep (x # y # ys) = x @ sep @ str_join sep (y # ys)"

text \<open>\<open>s.replace(old, new)\<close> for a non-empty \<open>old\<close>: every non-overlapping occurrence,
  scanning from the left.\<close>

function replace_scan :: "string \<Rightarrow> string \<Rightarrow> string \<Rightarrow> string" where
  "replace_scan old new [] = []"
| "replace_scan old new (c # cs) =
     (if old \<noteq> [] \<and> take (length old) (c # cs) = old
      then new @ replace_scan old new (drop (length old) (c # cs))
      else c # replace_scan old new cs)"
  by pat_completeness auto
termination
  by (relation "measure (\<lambda>(old, new, s). length s)") auto

text \<open>With an empty \<open>old\<close>, Python inserts \<open>new\<close> before every character and at the end.\<close>

definition str_replace :: "string \<Rightarrow> string \<Rightarrow> string \<Rightarrow> string" where
  "str_replace s old new =
     (if old = [] then new @ concat (map (\<lambda>c. c # new) s) else replace_scan old new s)"

primrec str_contains :: "string \<Rightarrow> string \<Rightarrow> bool" where
  "str_contains [] sub = (sub = [])"
| "str_contains (c # cs) sub = (take (length sub) (c # cs) = sub \<or> str_contains cs sub)"

subsection \<open>Results of \<open>eval\<close>\<close>

text \<open>
  \<open>eval\<close> is Python's builtin. The model takes it as a parameter \<open>ev\<close> of type
  \<open>evaluator\<close>: the text goes in, a value or an exception comes out. An expression is
  evaluated for its text alone, after the parameter names have been replaced in it: one
  that reads or changes the variables of the calling function is outside the model. A
  float is an exact real here. \<open>PNone\<close> stands for a result that is not a number.
\<close>

datatype pyval = PInt int | PBool bool | PFloat real | PNone

type_synonym evaluator = "string \<Rightarrow> exn + pyval"

text \<open>\<open>int(v)\<close>: truncation toward zero for a float, \<open>TypeError\<close> for a non-number.\<close>

fun py_int :: "pyval \<Rightarrow> exn + int" where
  "py_int (PInt i) = Inr i"
| "py_int (PBool b) = Inr (if b then 1 else 0)"
| "py_int (PFloat r) = Inr (if 0 \<le> r then \<lfloor>r\<rfloor> else \<lceil>r\<rceil>)"
| "py_int PNone =
     Inl (Raise TypeError ''int() argument must be a string, a bytes-like object or a number'')"

text \<open>Truth value, as \<open>not v\<close> tests it.\<close>

fun py_truth :: "pyval \<Rightarrow> bool" where
  "py_truth (PInt i) = (i \<noteq> 0)"
| "py_truth (PBool b) = b"
| "py_truth (PFloat r) = (r \<noteq> 0)"
| "py_truth PNone = False"

section \<open>Parameter space and configurations (\<open>interface.py\<close>)\<close>

text \<open>
  \<open>tune_params\<close> is a dictionary from parameter names to lists of values. It is modelled
  as an association list in the dictionary's iteration order; its keys are distinct.
  A configuration \<open>params\<close> is the dictionary \<open>zip(tune_params.keys(), element)\<close>.
\<close>

type_synonym tune_params = "(string \<times> param_value list) list"
type_synonym params = "(string \<times> param_value) list"

text \<open>\<open>itertools.product(*tune_params.values())\<close>\<close>

fun itertools_product :: "'a list list \<Rightarrow> 'a list list" where
  "itertools_product [] = [[]]"
| "itertools_product (vs # vss) =
     concat (map (\<lambda>v. map (\<lambda>rest. v # rest) (itertools_product vss)) vs)"

definition parameter_space :: "tune_params \<Rightarrow> param_value list list" where
  "parameter_space tp = itertools_product (map snd tp)"

definition params_of :: "tune_params \<Rightarrow> param_value list \<Rightarrow> params" where
  "params_of tp element = zip (map fst tp) element"

text \<open>\<open>"_".join([str(i) for i in params.values()])\<close>\<close>

definition instance_string :: "params \<Rightarrow> string" where
  "instance_string ps = str_join ''_'' (map (\<lambda>(k, v). str_value v) ps)"

subsection \<open>Substitution and restrictions\<close>

text \<open>\<open>_replace_param_occurrences\<close>\<close>

definition replace_param_occurrences :: "string \<Rightarrow> params \<Rightarrow> string" where
  "replace_param_occurrences s ps = foldl (\<lambda>acc (k, v). str_replace acc k (str_value v)) s ps"

text \<open>\<open>_check_restrictions\<close>: returns normally or raises.\<close>

fun check_each :: "evaluator \<Rightarrow> string list \<Rightarrow> params \<Rightarrow> exn + unit" where
  "check_each ev [] ps = Inr ()"
| "check_each ev (restrict # rest) ps =
     (case ev (replace_param_occurrences restrict ps) of
        Inl e \<Rightarrow> Inl e
      | Inr v \<Rightarrow>
          if \<not> py_truth v then Inl (Raise Exception ''config fails restriction'')
          else check_each ev rest ps)"

definition check_restrictions :: "evaluator \<Rightarrow> string list option \<Rightarrow> params \<Rightarrow> exn + unit" where
  "check_restrictions ev restrictions ps =
     (case restrictions of None \<Rightarrow> Inr () | Some rs \<Rightarrow> check_each ev rs ps)"

text \<open>\<open>list.remove(x)\<close>: removes the first item equal to \<open>x\<close> under Python's \<open>==\<close> (tuples
  compare element by element), and raises \<open>ValueError\<close> when there is none.\<close>

fun list_remove :: "param_value list \<Rightarrow> param_value list list \<Rightarrow> exn + param_value list list" where
  "list_remove x [] = Inl (Raise ValueError ''list.remove(x): x not in list'')"
| "list_remove x (y # ys) =
     (if list_all2 py_eq y x then Inr ys
      else (case list_remove x ys of Inl e \<Rightarrow> Inl e | Inr ys' \<Rightarrow> Inr (y # ys')))"

text \<open>The loop of \<open>tune_kernel\<close> over a copy of the parameter space: an element whose check
  raises is removed from the live list.\<close>

fun restrict_space ::
  "evaluator \<Rightarrow> string list option \<Rightarrow> tune_params \<Rightarrow> param_value list list \<Rightarrow>
   param_value list list \<Rightarrow> exn + param_value list list" where
  "restrict_space ev restrictions tp [] space = Inr space"
| "restrict_space ev restrictions tp (element # rest) space =
     (case check_restrictions ev restrictions (params_of tp element) of
        Inr u \<Rightarrow> restrict_space ev restrictions tp rest space
      | Inl e \<Rightarrow>
          (case list_remove element space of
             Inl e' \<Rightarrow> Inl e'
           | Inr space' \<Rightarrow> restrict_space ev restrictions tp rest space'))"

subsection \<open>Launch geometry\<close>

text \<open>\<open>[int(eval(_replace_param_occurrences(s, params))) for s in grid_div]\<close>\<close>

fun eval_divisors :: "evaluator \<Rightarrow> params \<Rightarrow> string list \<Rightarrow> exn + int list" where
  "eval_divisors ev ps [] = Inr []"
| "eval_divisors ev ps (s # ss) =
     (case ev (replace_param_occurrences s ps) of
        Inl e \<Rightarrow> Inl e
      | Inr v \<Rightarrow>
          (case py_int v of
             Inl e \<Rightarrow> Inl e
           | Inr i \<Rightarrow>
               (case eval_divisors ev ps ss of Inl e \<Rightarrow> Inl e | Inr js \<Rightarrow> Inr (i # js))))"

text \<open>\<open>numpy.prod\<close> of the divisors, as the exact product; 1 when no list is given.\<close>

definition divisor_product :: "evaluator \<Rightarrow> params \<Rightarrow> string list option \<Rightarrow> exn + int" where
  "divisor_product ev ps grid_div =
     (case grid_div of
        None \<Rightarrow> Inr 1
      | Some l \<Rightarrow> (case eval_divisors ev ps l of Inl e \<Rightarrow> Inl e | Inr ds \<Rightarrow> Inr (prod_list ds)))"

text \<open>\<open>int(numpy.ceil(float(p) / float(d)))\<close>, with the division taken exactly.\<close>

definition ceil_div :: "int \<Rightarrow> int \<Rightarrow> exn + int" where
  "ceil_div p d =
     (if d = 0 then Inl (Raise ZeroDivisionError ''float division by zero'')
      else Inr \<lceil>real_of_int p / real_of_int d\<rceil>)"

text \<open>\<open>_get_grid_dimensions\<close>\<close>

definition get_grid_dimensions ::
  "evaluator \<Rightarrow> int \<times> int \<Rightarrow> params \<Rightarrow> string list option \<Rightarrow> string list option \<Rightarrow>
   exn + int \<times> int" where
  "get_grid_dimensions ev problem_size ps grid_div_y grid_div_x =
     (let grid_div_x' =
            (if grid_div_x = None \<and> ''block_size_x'' \<in> set (map fst ps)
             then Some [''block_size_x''] else grid_div_x)
      in case divisor_product ev ps grid_div_x' of
           Inl e \<Rightarrow> Inl e
         | Inr div_x \<Rightarrow>
             (case divisor_product ev ps grid_div_y of
                Inl e \<Rightarrow> Inl e
              | Inr div_y \<Rightarrow>
                  (case ceil_div (fst problem_size) div_x of
                     Inl e \<Rightarrow> Inl e
                   | Inr gx \<Rightarrow>
                       (case ceil_div (snd problem_size) div_y of
                          Inl e \<Rightarrow> Inl e
                        | Inr gy \<Rightarrow> Inr (gx, gy)))))"

text \<open>\<open>params.get(key, default)\<close> and \<open>_get_thread_block_dimensions\<close>\<close>

definition dict_get :: "params \<Rightarrow> string \<Rightarrow> param_value \<Rightarrow> param_value" where
  "dict_get ps k dflt = (case map_of ps k of None \<Rightarrow> dflt | Some v \<Rightarrow> v)"

definition get_thread_block_dimensions :: "params \<Rightarrow> param_value \<times> param_value \<times> param_value" where
  "get_thread_block_dimensions ps =
     (dict_get ps ''block_size_x'' (IntV 256),
      dict_get ps ''block_size_y'' (IntV 1),
      dict_get ps ''block_size_z'' (IntV 1))"

text \<open>\<open>numpy.prod(threads)\<close>, as the exact product.\<close>

fun prod_threads :: "param_value \<times> param_value \<times> param_value \<Rightarrow> int" where
  "prod_threads (x, y, z) = py_int_of x * py_int_of y * py_int_of z"

subsection \<open>Kernel specialisation\<close>

text \<open>\<open>_prepare_kernel_string\<close>: every step prepends one line to the text so far.\<close>

definition prepare_kernel_string :: "string \<Rightarrow> params \<Rightarrow> int \<times> int \<Rightarrow> string" where
  "prepare_kernel_string original_kernel ps grid =
     (let kernel_string = original_kernel;
          kernel_string = ''#define grid_size_x '' @ str_int (fst grid) @ [CHR 0x0A] @ kernel_string;
          kernel_string = ''#define grid_size_y '' @ str_int (snd grid) @ [CHR 0x0A] @ kernel_string
      in foldl (\<lambda>kernel_string (k, v).
                  ''#define '' @ k @ '' '' @ str_value v @ [CHR 0x0A] @ kernel_string)
           kernel_string ps)"

section \<open>Host arrays and the device interface\<close>

text \<open>
  A kernel argument is a numpy array or a numpy scalar. Array elements are exact reals in
  this model (no rounding, no NaN); an array is the list of its elements in \<open>ravel\<close> order.
\<close>

datatype host_arg = Array "real list" | Scalar real

fun zeros_like :: "host_arg \<Rightarrow> host_arg" where
  "zeros_like (Array xs) = Array (replicate (length xs) 0)"
| "zeros_like (Scalar v) = Scalar 0"

fun ravel :: "host_arg \<Rightarrow> real list" where
  "ravel (Array xs) = xs"
| "ravel (Scalar v) = [v]"

fun array_size :: "host_arg \<Rightarrow> nat" where
  "array_size (Array xs) = length xs"
| "array_size (Scalar v) = 1"

text \<open>\<open>numpy.allclose(a, b, atol=1e-6)\<close>: the relative tolerance keeps its default
  \<open>rtol = 1e-5\<close>, so an element passes when \<open>|a - b| \<le> atol + rtol * |b|\<close>. Shapes that
  differ are broadcast when one side has a single element, and raise otherwise.\<close>

definition isclose :: "real \<Rightarrow> real \<Rightarrow> bool" where
  "isclose a b = (\<bar>a - b\<bar> \<le> 1 / 1000000 + (1 / 100000) * \<bar>b\<bar>)"

definition allclose :: "real list \<Rightarrow> real list \<Rightarrow> exn + bool" where
  "allclose a b =
     (if length a = length b then Inr (list_all2 isclose a b)
      else if length a = 1 then Inr (list_all (\<lambda>y. isclose (hd a) y) b)
      else if length b = 1 then Inr (list_all (\<lambda>x. isclose x (hd b)) a)
      else Inl (Raise ValueError ''operands could not be broadcast together''))"

text \<open>A Python float that may be \<open>nan\<close> (the mean of no samples).\<close>

datatype pyfloat = Float real | NaN

text \<open>
  The tuner drives one of three backends (\<open>CudaFunctions\<close>, \<open>OpenCLFunctions\<close>,
  \<open>CFunctions\<close>) through the same methods. A backend is a record of these methods over
  its own device state \<open>'d\<close>, device arguments \<open>'g\<close> and compiled functions \<open>'f\<close>; a method
  takes the device state and returns its result, or the exception it raised, with the new
  state.
\<close>

type_synonym threads = "param_value \<times> param_value \<times> param_value"

record ('d, 'g, 'f) device =
  dev_max_threads :: int
  dev_ready_argument_list :: "host_arg list \<Rightarrow> 'd \<Rightarrow> (exn + 'g list) \<times> 'd"
  dev_compile :: "string \<Rightarrow> string \<Rightarrow> 'd \<Rightarrow> (exn + 'f) \<times> 'd"
  dev_copy_constant_memory_args :: "(string \<times> host_arg) list \<Rightarrow> 'd \<Rightarrow> (exn + unit) \<times> 'd"
  dev_benchmark :: "'f \<Rightarrow> 'g list \<Rightarrow> threads \<Rightarrow> int \<times> int \<Rightarrow> 'd \<Rightarrow> (exn + pyfloat) \<times> 'd"
  dev_run_kernel :: "'f \<Rightarrow> 'g list \<Rightarrow> threads \<Rightarrow> int \<times> int \<Rightarrow> 'd \<Rightarrow> (exn + unit) \<times> 'd"
  dev_memset :: "'g \<Rightarrow> int \<Rightarrow> nat \<Rightarrow> 'd \<Rightarrow> (exn + unit) \<times> 'd"
  dev_memcpy_dtoh :: "host_arg \<Rightarrow> 'g \<Rightarrow> 'd \<Rightarrow> (exn + host_arg) \<times> 'd"

text \<open>\<open>_detect_language\<close> and \<open>_get_device_interface\<close>. The name
  \<open>UnImplementedException\<close> is bound nowhere, so raising it is a \<open>NameError\<close>.\<close>

definition detect_language :: "string option \<Rightarrow> string \<Rightarrow> string" where
  "detect_language lang original_kernel =
     (case lang of
        Some l \<Rightarrow> l
      | None \<Rightarrow>
          if str_contains original_kernel ''__global__'' then ''CUDA''
          else if str_contains original_kernel ''__kernel'' then ''OpenCL''
          else ''C'')"

definition get_device_interface ::
  "string \<Rightarrow> ('d, 'g, 'f) device \<Rightarrow> ('d, 'g, 'f) device \<Rightarrow> ('d, 'g, 'f) device \<Rightarrow>
   exn + ('d, 'g, 'f) device" where
  "get_device_interface lang cuda opencl cfunctions =
     (if lang = ''CUDA'' then Inr cuda
      else if lang = ''OpenCL'' then Inr opencl
      else if lang = ''C'' then Inr cfunctions
      else Inl (Raise NameError ''name 'UnImplementedException' is not defined''))"

subsection \<open>\<open>_check_kernel_correctness\<close>\<close>

text \<open>First loop: \<open>dev.memset(result, 0, expected.size)\<close> for every checked argument.\<close>

fun zero_checked ::
  "('d, 'g, 'f) device \<Rightarrow> ('g \<times> host_arg option) list \<Rightarrow> 'd \<Rightarrow> (exn + unit) \<times> 'd" where
  "zero_checked dev [] d = (Inr (), d)"
| "zero_checked dev ((result, expected) # rest) d =
     (case expected of
        None \<Rightarrow> zero_checked dev rest d
      | Some e \<Rightarrow>
          (case dev_memset dev result 0 (array_size e) d of
             (Inl x, d') \<Rightarrow> (Inl x, d')
           | (Inr u, d') \<Rightarrow> zero_checked dev rest d'))"

text \<open>Second loop: copy back and compare. \<open>correct and numpy.allclose(...)\<close> does not
  evaluate the comparison once \<open>correct\<close> is false.\<close>

fun compare_results ::
  "('d, 'g, 'f) device \<Rightarrow> ('g \<times> host_arg option) list \<Rightarrow> bool \<Rightarrow> 'd \<Rightarrow> (exn + bool) \<times> 'd" where
  "compare_results dev [] correct d = (Inr correct, d)"
| "compare_results dev ((result, expected) # rest) correct d =
     (case expected of
        None \<Rightarrow> compare_results dev rest correct d
      | Some e \<Rightarrow>
          (case dev_memcpy_dtoh dev (zeros_like e) result d of
             (Inl x, d') \<Rightarrow> (Inl x, d')
           | (Inr result_host, d') \<Rightarrow>
               if correct then
                 (case allclose (ravel result_host) (ravel e) of
                    Inl x \<Rightarrow> (Inl x, d')
                  | Inr c \<Rightarrow> compare_results dev rest c d')
               else compare_results dev rest False d'))"

definition check_kernel_correctness ::
  "('d, 'g, 'f) device \<Rightarrow> 'f \<Rightarrow> 'g list \<Rightarrow> threads \<Rightarrow> int \<times> int \<Rightarrow> host_arg option list \<Rightarrow>
   string \<Rightarrow> 'd \<Rightarrow> (exn + bool) \<times> 'd" where
  "check_kernel_correctness dev func gpu_args thr grid answer inst d =
     (case zero_checked dev (zip gpu_args answer) d of
        (Inl x, d1) \<Rightarrow> (Inl x, d1)
      | (Inr u, d1) \<Rightarrow>
          (case dev_run_kernel dev func gpu_args thr grid d1 of
             (Inl x, d2) \<Rightarrow> (Inl x, d2)
           | (Inr u', d2) \<Rightarrow>
               (case compare_results dev (zip gpu_args answer) True d2 of
                  (Inl x, d3) \<Rightarrow> (Inl x, d3)
                | (Inr correct, d3) \<Rightarrow>
                    if \<not> correct
                    then (Inl (Raise Exception (''Error '' @ inst @ '' failed correctness check'')), d3)
                    else (Inr correct, d3))))"

section \<open>The sweep: \<open>tune_kernel\<close>\<close>

text \<open>The arguments of one call of \<open>tune_kernel\<close>. \<open>verbose\<close> only selects what is
  printed and \<open>device\<close> only which device a backend opens; neither is modelled.\<close>

record tuning_call =
  kernel_name :: string
  kernel_string :: string
  problem_size :: "int \<times> int"
  arguments :: "host_arg list"
  tune_params :: tune_params
  grid_div_x :: "string list option"
  grid_div_y :: "string list option"
  restrictions :: "string list option"
  answer :: "host_arg option list option"
  lang :: "string option"
  cmem_args :: "(string \<times> host_arg) list option"

text \<open>What the loop over the parameter space carries: the \<open>results\<close> dictionary (in
  insertion order), the device state, and the names handed to \<open>dev.compile\<close> so far.\<close>

record 'd sweep_state =
  results :: "(string \<times> pyfloat) list"
  compile_calls :: "string list"
  dev_state :: 'd

text \<open>\<open>results[key] = t\<close>\<close>

fun dict_set :: "(string \<times> 'v) list \<Rightarrow> string \<Rightarrow> 'v \<Rightarrow> (string \<times> 'v) list" where
  "dict_set [] k v = [(k, v)]"
| "dict_set ((k', v') # rest) k v =
     (if k' = k then (k, v) # rest else (k', v') # dict_set rest k v)"

text \<open>The second \<open>try\<close> block: the optional correctness check, then the benchmark.\<close>

definition check_and_benchmark ::
  "('d, 'g, 'f) device \<Rightarrow> 'f \<Rightarrow> 'g list \<Rightarrow> threads \<Rightarrow> int \<times> int \<Rightarrow>
   host_arg option list option \<Rightarrow> string \<Rightarrow> 'd \<Rightarrow> (exn + pyfloat) \<times> 'd" where
  "check_and_benchmark dev func gpu_args thr grid ans inst d =
     (case ans of
        None \<Rightarrow> dev_benchmark dev func gpu_args thr grid d
      | Some a \<Rightarrow>
          (case check_kernel_correctness dev func gpu_args thr grid a inst d of
             (Inl e, d') \<Rightarrow> (Inl e, d')
           | (Inr c, d') \<Rightarrow> dev_benchmark dev func gpu_args thr grid d'))"

text \<open>One iteration of the loop over the parameter space. \<open>Inl\<close> is an exception that
  leaves \<open>tune_kernel\<close>; \<open>continue\<close> is \<open>Inr\<close> with the results unchanged.\<close>

definition tune_iteration ::
  "tuning_call \<Rightarrow> ('d, 'g, 'f) device \<Rightarrow> evaluator \<Rightarrow> 'g list \<Rightarrow> param_value list \<Rightarrow>
   'd sweep_state \<Rightarrow> exn + 'd sweep_state" where
  "tune_iteration J dev ev gpu_args element st =
     (let ps = params_of (tune_params J) element;
          inst = instance_string ps;
          thr = get_thread_block_dimensions ps
      in if prod_threads thr > dev_max_threads dev then Inr st
         else
           (case get_grid_dimensions ev (problem_size J) ps (grid_div_y J) (grid_div_x J) of
              Inl e \<Rightarrow> Inl e
            | Inr grid \<Rightarrow>
                (let ks = prepare_kernel_string (kernel_string J) ps grid;
                     name = kernel_name J @ ''_'' @ inst;
                     ks' = str_replace ks (kernel_name J) name;
                     calls = compile_calls st @ [name]
                 in case dev_compile dev name ks' (dev_state st) of
                      (Inl e, d1) \<Rightarrow>
                        if str_contains (str_exn e) ''uses too much shared data''
                        then Inr (st\<lparr>compile_calls := calls, dev_state := d1\<rparr>)
                        else Inl e
                    | (Inr func, d1) \<Rightarrow>
                        (case (case cmem_args J of
                                 None \<Rightarrow> (Inr (), d1)
                               | Some c \<Rightarrow> dev_copy_constant_memory_args dev c d1) of
                           (Inl e, d2) \<Rightarrow> Inl e
                         | (Inr u, d2) \<Rightarrow>
                             (case check_and_benchmark dev func gpu_args thr grid (answer J) inst d2 of
                                (Inl e, d3) \<Rightarrow>
                                  if str_contains (str_exn e) ''too many resources requested for launch''
                                     \<or> str_contains (str_exn e) ''OUT_OF_RESOURCES''
                                  then Inr (st\<lparr>compile_calls := calls, dev_state := d3\<rparr>)
                                  else Inl e
                              | (Inr time, d3) \<Rightarrow>
                                  Inr (st\<lparr>results := dict_set (results st) inst time,
                                          compile_calls := calls, dev_state := d3\<rparr>))))))"

fun sweep ::
  "tuning_call \<Rightarrow> ('d, 'g, 'f) device \<Rightarrow> evaluator \<Rightarrow> 'g list \<Rightarrow> param_value list list \<Rightarrow>
   'd sweep_state \<Rightarrow> exn + 'd sweep_state" where
  "sweep J dev ev gpu_args [] st = Inr st"
| "sweep J dev ev gpu_args (element # rest) st =
     (case tune_iteration J dev ev gpu_args element st of
        Inl e \<Rightarrow> Inl e
      | Inr st' \<Rightarrow> sweep J dev ev gpu_args rest st')"

text \<open>\<open>tune_kernel\<close>, with the three constructed backends, \<open>eval\<close> and the initial device
  state as parameters. \<open>tune_kernel_state\<close> keeps the final loop state; \<open>tune_kernel\<close>
  returns the \<open>results\<close> dictionary.\<close>

definition tune_kernel_state ::
  "('d, 'g, 'f) device \<Rightarrow> ('d, 'g, 'f) device \<Rightarrow> ('d, 'g, 'f) device \<Rightarrow> evaluator \<Rightarrow>
   tuning_call \<Rightarrow> 'd \<Rightarrow> exn + 'd sweep_state" where
  "tune_kernel_state cuda opencl cfunctions ev J d0 =
     (case get_device_interface (detect_language (lang J) (kernel_string J)) cuda opencl cfunctions of
        Inl e \<Rightarrow> Inl e
      | Inr dev \<Rightarrow>
          (case dev_ready_argument_list dev (arguments J) d0 of
             (Inl e, d1) \<Rightarrow> Inl e
           | (Inr gpu_args, d1) \<Rightarrow>
               (let space = parameter_space (tune_params J)
                in case restrict_space ev (restrictions J) (tune_params J) space space of
                     Inl e \<Rightarrow> Inl e
                   | Inr space' \<Rightarrow>
                       sweep J dev ev gpu_args space'
                         \<lparr>results = [], compile_calls = [], dev_state = d1\<rparr>)))"

definition tune_kernel ::
  "('d, 'g, 'f) device \<Rightarrow> ('d, 'g, 'f) device \<Rightarrow> ('d, 'g, 'f) device \<Rightarrow> evaluator \<Rightarrow>
   tuning_call \<Rightarrow> 'd \<Rightarrow> exn + (string \<times> pyfloat) list" where
  "tune_kernel cuda opencl cfunctions ev J d0 =
     (case tune_kernel_state cuda opencl cfunctions ev J d0 of
        Inl e \<Rightarrow> Inl e
      | Inr st \<Rightarrow> Inr (results st))"

section \<open>\<open>run_kernel\<close>\<close>



section \<open>The OpenCL backend (\<open>opencl.py\<close>)\<close>

text \<open>
  A device argument is an OpenCL buffer or a scalar passed along by value. Device memory
  is the list of the buffers' contents; a buffer is its index in that list. A compiled
  kernel is called with the global and local sizes and the device arguments; it may
  change device memory, and returns its profiling event (start and end, in nanoseconds)
  or raises. The OpenCL compiler (\<open>cl.Program(...).build()\<close> followed by the lookup of
  the kernel name) and \<open>cl.enqueue_fill_buffer\<close>, which works on bytes, are parameters.
  The methods of the class \<open>OpenCLFunctions\<close> carry the prefix \<open>ocl_\<close> where their
  name is also a function of \<open>interface.py\<close> or a field of the backend record.
\<close>

datatype gpu_arg = Buffer nat | ByValue real

type_synonym cl_mem = "real list list"

type_synonym cl_kernel =
  "int \<times> int \<times> int \<Rightarrow> threads \<Rightarrow> gpu_arg list \<Rightarrow> cl_mem \<Rightarrow> (exn + int \<times> int) \<times> cl_mem"

record opencl_functions =
  ITERATIONS :: nat
  max_threads :: int
  cl_build :: "string \<Rightarrow> string \<Rightarrow> exn + cl_kernel"
  cl_enqueue_fill_buffer :: "real list \<Rightarrow> int \<Rightarrow> nat \<Rightarrow> exn + real list"

text \<open>\<open>__init__(self, device=0, iterations=7)\<close>: \<open>None\<close> is the omitted argument. The
  device reports its maximum work group size.\<close>

definition OpenCLFunctions ::
  "int \<Rightarrow> (string \<Rightarrow> string \<Rightarrow> exn + cl_kernel) \<Rightarrow> (real list \<Rightarrow> int \<Rightarrow> nat \<Rightarrow> exn + real list) \<Rightarrow>
   nat option \<Rightarrow> opencl_functions" where
  "OpenCLFunctions max_work_group_size build fill iterations =
     \<lparr>ITERATIONS = (case iterations of None \<Rightarrow> 7 | Some n \<Rightarrow> n),
      max_threads = max_work_group_size,
      cl_build = build,
      cl_enqueue_fill_buffer = fill\<rparr>"

text \<open>\<open>create_gpu_args\<close>: an array gets a new buffer holding a copy of it.\<close>

fun create_gpu_args :: "host_arg list \<Rightarrow> cl_mem \<Rightarrow> gpu_arg list \<times> cl_mem" where
  "create_gpu_args [] mem = ([], mem)"
| "create_gpu_args (Array xs # rest) mem =
     (case create_gpu_args rest (mem @ [xs]) of (gs, mem') \<Rightarrow> (Buffer (length mem) # gs, mem'))"
| "create_gpu_args (Scalar v # rest) mem =
     (case create_gpu_args rest mem of (gs, mem') \<Rightarrow> (ByValue v # gs, mem'))"


definition global_size :: "int \<times> int \<Rightarrow> threads \<Rightarrow> int \<times> int \<times> int" where
  "global_size grid thr =
     (case thr of (tx, ty, tz) \<Rightarrow>
        (fst grid * py_int_of tx, snd grid * py_int_of ty, py_int_of tz))"

text \<open>The loop of \<open>benchmark\<close>: one launch per iteration, each appending its time in
  milliseconds.\<close>

fun run_iterations ::
  "nat \<Rightarrow> cl_kernel \<Rightarrow> int \<times> int \<times> int \<Rightarrow> threads \<Rightarrow> gpu_arg list \<Rightarrow> real list \<Rightarrow> cl_mem \<Rightarrow>
   (exn + real list) \<times> cl_mem" where
  "run_iterations 0 func gs ls gpu_args samples mem = (Inr samples, mem)"
| "run_iterations (Suc n) func gs ls gpu_args samples mem =
     (case func gs ls gpu_args mem of
        (Inl e, mem') \<Rightarrow> (Inl e, mem')
      | (Inr (start, stop), mem') \<Rightarrow>
          run_iterations n func gs ls gpu_args
            (samples @ [real_of_int (stop - start) * (1 / 1000000)]) mem')"

text \<open>\<open>numpy.mean\<close> (\<open>nan\<close> for no samples) and \<open>numpy.mean(sorted(times)[1:-1])\<close>\<close>

definition numpy_mean :: "real list \<Rightarrow> pyfloat" where
  "numpy_mean xs = (if xs = [] then NaN else Float (sum_list xs / real (length xs)))"

definition robust_average :: "real list \<Rightarrow> pyfloat" where
  "robust_average samples = numpy_mean (butlast (tl (sort samples)))"

definition ocl_benchmark ::
  "opencl_functions \<Rightarrow> cl_kernel \<Rightarrow> gpu_arg list \<Rightarrow> threads \<Rightarrow> int \<times> int \<Rightarrow> cl_mem \<Rightarrow>
   (exn + pyfloat) \<times> cl_mem" where
  "ocl_benchmark self func gpu_args thr grid mem =
     (case run_iterations (ITERATIONS self) func (global_size grid thr) thr gpu_args [] mem of
        (Inl e, mem') \<Rightarrow> (Inl e, mem')
      | (Inr samples, mem') \<Rightarrow> (Inr (robust_average samples), mem'))"



text \<open>\<open>cl.enqueue_copy(queue, dest, src)\<close> fills the host array \<open>dest\<close>, which keeps its
  shape, from the start of the buffer.\<close>

definition enqueue_copy :: "host_arg \<Rightarrow> real list \<Rightarrow> exn + host_arg" where
  "enqueue_copy dest contents =
     (if length contents < array_size dest then Inl (Raise LogicError ''INVALID_VALUE'')
      else Inr (case dest of
                  Array xs \<Rightarrow> Array (take (length xs) contents)
                | Scalar x \<Rightarrow> Scalar (hd contents)))"



section \<open>Concrete evaluators, backends and descriptions used in the statements\<close>

subsection \<open>A fragment of Python expressions\<close>

text \<open>
  The theorems below hold for every \<open>eval\<close>. For runs on concrete inputs, \<open>eval_fragment\<close>
  evaluates the texts of a small fragment as Python 3 does: a decimal integer or float
  literal, \<open>True\<close>, \<open>False\<close>, a name (which is unbound: \<open>NameError\<close>), or one comparison of
  two of these with no blanks. Any other text is answered with \<open>SyntaxError\<close>; the
  concrete runs below only use texts of the fragment and texts Python rejects too.
\<close>

definition is_digit :: "char \<Rightarrow> bool" where
  "is_digit c = (c \<in> set ''0123456789'')"

definition is_name_start :: "char \<Rightarrow> bool" where
  "is_name_start c = (c \<in> set ''_abcdefghijklmnopqrstuvwxyzABCDEFGHIJKLMNOPQRSTUVWXYZ'')"

definition is_atom_char :: "char \<Rightarrow> bool" where
  "is_atom_char c = (is_digit c \<or> is_name_start c \<or> c = CHR ''.'')"

definition digit_val :: "char \<Rightarrow> nat" where
  "digit_val c = of_char c - 48"

definition nat_of_digits :: "string \<Rightarrow> nat" where
  "nat_of_digits s = foldl (\<lambda>a c. 10 * a + digit_val c) 0 s"

definition eval_atom :: "string \<Rightarrow> exn + pyval" where
  "eval_atom s =
     (if s = ''True'' then Inr (PBool True)
      else if s = ''False'' then Inr (PBool False)
      else if s \<noteq> [] \<and> list_all is_digit s \<and> (hd s \<noteq> CHR ''0'' \<or> list_all (\<lambda>c. c = CHR ''0'') s)
        then Inr (PInt (int (nat_of_digits s)))
      else
        (let a = takeWhile is_digit s; b = dropWhile is_digit s
         in if a \<noteq> [] \<and> b \<noteq> [] \<and> hd b = CHR ''.'' \<and> tl b \<noteq> [] \<and> list_all is_digit (tl b)
            then Inr (PFloat (real (nat_of_digits a) + real (nat_of_digits (tl b)) / 10 ^ length (tl b)))
            else if s \<noteq> [] \<and> is_name_start (hd s) \<and> list_all (\<lambda>c. is_name_start c \<or> is_digit c) s
            then Inl (Raise NameError (''name '' @ [CHR 0x27] @ s @ [CHR 0x27] @ '' is not defined''))
            else Inl (Raise SyntaxError ''invalid syntax'')))"

fun num_of :: "pyval \<Rightarrow> real option" where
  "num_of (PInt i) = Some (real_of_int i)"
| "num_of (PBool b) = Some (if b then 1 else 0)"
| "num_of (PFloat r) = Some r"
| "num_of PNone = None"

definition split_operator :: "string \<Rightarrow> (string \<times> string) option" where
  "split_operator r =
     (if take 2 r \<in> set [''=='', ''!='', ''<='', ''>=''] then Some (take 2 r, drop 2 r)
      else if take 1 r \<in> set [''<'', ''>''] then Some (take 1 r, drop 1 r)
      else None)"

definition compare_op :: "string \<Rightarrow> real \<Rightarrow> real \<Rightarrow> bool" where
  "compare_op opr x y =
     (if opr = ''=='' then x = y
      else if opr = ''!='' then x \<noteq> y
      else if opr = ''<='' then x \<le> y
      else if opr = ''>='' then x \<ge> y
      else if opr = ''<'' then x < y
      else x > y)"

definition is_syntax_error :: "exn + pyval \<Rightarrow> bool" where
  "is_syntax_error r = (case r of Inl (Raise k m) \<Rightarrow> k = SyntaxError | Inr v \<Rightarrow> False)"

definition eval_fragment :: evaluator where
  "eval_fragment s =
     (let a = takeWhile is_atom_char s; r = dropWhile is_atom_char s
      in if r = [] then eval_atom a
         else
           (case split_operator r of
              None \<Rightarrow> Inl (Raise SyntaxError ''invalid syntax'')
            | Some (opr, b) \<Rightarrow>
                if \<not> list_all is_atom_char b \<or> is_syntax_error (eval_atom a)
                   \<or> is_syntax_error (eval_atom b)
                then Inl (Raise SyntaxError ''invalid syntax'')
                else
                  (case eval_atom a of
                     Inl e \<Rightarrow> Inl e
                   | Inr x \<Rightarrow>
                       (case eval_atom b of
                          Inl e \<Rightarrow> Inl e
                        | Inr y \<Rightarrow>
                            (case (num_of x, num_of y) of
                               (Some p, Some q) \<Rightarrow> Inr (PBool (compare_op opr p q))
                             | other \<Rightarrow> Inl (Raise TypeError ''unorderable types''))))))"

subsection \<open>A simulated backend\<close>

text \<open>
  \<open>cuda.py\<close> and \<open>c.py\<close> are not part of the sources at hand. Concrete sweeps run on
  \<open>sim_device\<close>: it stages arguments as the OpenCL backend does, compiles every source,
  runs a fixed kernel \<open>kern\<close> on device memory at every launch, reports the time \<open>t\<close>
  for every benchmark, zeroes the leading elements in \<open>memset\<close> and copies a buffer back
  in \<open>memcpy_dtoh\<close>.
\<close>

definition sim_memset :: "gpu_arg \<Rightarrow> int \<Rightarrow> nat \<Rightarrow> cl_mem \<Rightarrow> (exn + unit) \<times> cl_mem" where
  "sim_memset buffer v n mem =
     (case buffer of
        ByValue x \<Rightarrow> (Inr (), mem)
      | Buffer h \<Rightarrow>
          (Inr (), mem[h := replicate (min n (length (mem ! h))) (real_of_int v) @ drop n (mem ! h)]))"

definition sim_device :: "int \<Rightarrow> (cl_mem \<Rightarrow> cl_mem) \<Rightarrow> real \<Rightarrow> (cl_mem, gpu_arg, string) device" where
  "sim_device mt kern t =
     \<lparr>dev_max_threads = mt,
      dev_ready_argument_list =
        (\<lambda>args mem. case create_gpu_args args mem of (gs, mem') \<Rightarrow> (Inr gs, mem')),
      dev_compile = (\<lambda>name src mem. (Inr name, mem)),
      dev_copy_constant_memory_args = (\<lambda>c mem. (Inr (), mem)),
      dev_benchmark = (\<lambda>func gpu_args thr grid mem. (Inr (Float t), kern mem)),
      dev_run_kernel = (\<lambda>func gpu_args thr grid mem. (Inr (), kern mem)),
      dev_memset = sim_memset,
      dev_memcpy_dtoh =
        (\<lambda>dest src mem. case src of
            ByValue x \<Rightarrow> (Inr dest, mem)
          | Buffer h \<Rightarrow> (enqueue_copy dest (mem ! h), mem))\<rparr>"

subsection \<open>Descriptions in the words of the specification\<close>

text \<open>The line order the specification states for the specialised kernel text: the grid
  sizes first, then the parameters in key order, then the source.\<close>

definition claimed_kernel_string :: "string \<Rightarrow> params \<Rightarrow> int \<times> int \<Rightarrow> string" where
  "claimed_kernel_string original_kernel ps grid =
     ''#define grid_size_x '' @ str_int (fst grid) @ [CHR 0x0A]
     @ ''#define grid_size_y '' @ str_int (snd grid) @ [CHR 0x0A]
     @ concat (map (\<lambda>(k, v). ''#define '' @ k @ '' '' @ str_value v @ [CHR 0x0A]) ps)
     @ original_kernel"




subsection \<open>A kernel with prescribed running times\<close>

text \<open>Successive launches of \<open>queue_kernel\<close> take the times (in nanoseconds) listed in
  buffer 0, which each launch shortens by one.\<close>

definition queue_kernel :: cl_kernel where
  "queue_kernel gs ls gpu_args mem = ((Inr (0, \<lfloor>hd (mem ! 0)\<rfloor>), mem[0 := tl (mem ! 0)]))"

subsection \<open>A concrete call and concrete kernels\<close>


text \<open>A call of \<open>tune_kernel\<close> for a CUDA kernel with one array and one scalar argument,
  two block sizes of which 2048 exceeds 1024 threads, and an expected value for the array.\<close>

definition vector_add_call :: tuning_call where
  "vector_add_call =
     \<lparr>kernel_name = ''vector_add'',
      kernel_string = ''__global__ void vector_add(float *c, float a)'',
      problem_size = (64, 1),
      arguments = [Array [0], Scalar 3],
      tune_params = [(''block_size_x'', [IntV 32, IntV 2048])],
      grid_div_x = None, grid_div_y = None, restrictions = None,
      answer = Some [Some (Array [1024]), None],
      lang = None, cmem_args = None\<rparr>"

text \<open>A kernel that stores \<open>v\<close> in buffer 0, and an OpenCL kernel that adds 1 to every
  element of buffer 0.\<close>

definition writes :: "real \<Rightarrow> cl_mem \<Rightarrow> cl_mem" where
  "writes v mem = mem[0 := [v]]"


section \<open>Facts about the textual representation\<close>

lemma small_cases: "d < 10 \<Longrightarrow> d \<in> {0, 1, 2, 3, 4, 5, 6, 7, 8, 9::nat}"
  by auto


lemma digit_char_in: "d < 10 \<Longrightarrow> digit_char d \<in> set ''0123456789''"
  using small_cases [of d] by (auto simp: digit_char_def)

lemma str_nat_digits: "set (str_nat n) \<subseteq> set ''0123456789''"
proof (induction n rule: str_nat.induct)
  case (1 n)
  show ?case
  proof (cases "n < 10")
    case True
    then show ?thesis using digit_char_in [of n] by (simp add: str_nat.simps [of n])
  next
    case False
    have "n mod 10 < 10" by simp
    then have "digit_char (n mod 10) \<in> set ''0123456789''" by (rule digit_char_in)
    with False 1 show ?thesis by (simp add: str_nat.simps [of n])
  qed
qed

lemma str_nat_nonempty: "str_nat n \<noteq> []"
  by (simp add: str_nat.simps [of n])





lemma str_int_chars: "set (str_int i) \<subseteq> set ''-0123456789''"
proof (cases "i < 0")
  case True
  then have "set (str_int i) = insert CHR ''-'' (set (str_nat (nat (- i))))"
    by (simp add: str_int_def)
  also have "\<dots> \<subseteq> insert CHR ''-'' (set ''0123456789'')"
    using str_nat_digits [of "nat (- i)"] by (rule insert_mono)
  finally show ?thesis by simp
next
  case False
  then have "set (str_int i) = set (str_nat (nat i))" by (simp add: str_int_def)
  also have "\<dots> \<subseteq> set ''0123456789''" by (rule str_nat_digits)
  also have "\<dots> \<subseteq> set ''-0123456789''" by (simp add: subset_insertI)
  finally show ?thesis .
qed

lemma str_int_nonempty: "str_int i \<noteq> []"
  by (simp add: str_int_def str_nat_nonempty)

lemma str_value_chars: "set (str_value v) \<subseteq> set ''-0123456789TrueFals''"
proof (cases v)
  case (IntV i)
  have a: "set ''-0123456789'' \<subseteq> set ''-0123456789TrueFals''" by simp
  have "set (str_value v) \<subseteq> set ''-0123456789''"
    unfolding IntV str_value.simps by (rule str_int_chars)
  then show ?thesis using a by (rule order_trans)
next
  case (BoolV b)
  then show ?thesis by simp
qed








section \<open>The parameter space\<close>

lemma itertools_product_length:
  "length (itertools_product vss) = prod_list (map length vss)"
proof (induction vss)
  case Nil
  show ?case by simp
next
  case (Cons vs vss)
  have "length (concat (map (\<lambda>v. map ((#) v) (itertools_product vss)) vs))
        = length vs * length (itertools_product vss)"
    by (induction vs) simp_all
  with Cons show ?case by simp
qed

lemma itertools_product_set:
  "set (itertools_product vss) = {c. list_all2 (\<lambda>v vs. v \<in> set vs) c vss}"
proof (induction vss)
  case Nil
  show ?case by auto
next
  case (Cons vs vss)
  show ?case
  proof (rule set_eqI)
    fix c
    show "c \<in> set (itertools_product (vs # vss)) \<longleftrightarrow>
          c \<in> {c. list_all2 (\<lambda>v vs. v \<in> set vs) c (vs # vss)}"
      using Cons by (cases c) (auto simp: list_all2_Cons2)
  qed
qed

lemma itertools_product_elem_length:
  "c \<in> set (itertools_product vss) \<Longrightarrow> length c = length vss"
  by (simp add: itertools_product_set list_all2_lengthD)

lemma concat_map_map_Cons:
  "concat (map (\<lambda>c. map (\<lambda>v. (w # c) @ [v]) vs) cs)
   = map ((#) w) (concat (map (\<lambda>c. map (\<lambda>v. c @ [v]) vs) cs))"
  by (induction cs) simp_all

lemma itertools_product_snoc:
  "itertools_product (vss @ [vs]) =
     concat (map (\<lambda>c. map (\<lambda>v. c @ [v]) vs) (itertools_product vss))"
proof (induction vss)
  case Nil
  show ?case by (simp add: comp_def)
next
  case (Cons ws vss)
  have "concat (map (\<lambda>c. map (\<lambda>v. c @ [v]) vs) (concat (map (\<lambda>w. map ((#) w) cs) ws)))
        = concat (map (\<lambda>w. map ((#) w) (concat (map (\<lambda>c. map (\<lambda>v. c @ [v]) vs) cs))) ws)"
    for cs :: "'a list list"
  proof (induction ws)
    case Nil
    show ?case by simp
  next
    case (Cons w ws)
    have "concat (map (\<lambda>c. map (\<lambda>v. c @ [v]) vs) (map ((#) w) cs))
          = map ((#) w) (concat (map (\<lambda>c. map (\<lambda>v. c @ [v]) vs) cs))"
      using concat_map_map_Cons [of w vs cs] by (simp add: comp_def)
    with Cons show ?case by simp
  qed
  with Cons show ?case by simp
qed

section \<open>Claims about the parameter space and the kernel text\<close>

text \<open>
  Claim C8. The configurations generated for a parameter domain are exactly the cartesian
  product of its value lists, in key order with the last key varying fastest: the number
  of configurations is the product of the list lengths, the configurations are exactly
  the lists that take their i-th value from the i-th list, every configuration has one
  value per key (and the keys of the domain), and adding a last key replaces every
  configuration by the run of its extensions with the new key's values.
\<close>

theorem parameter_space_is_cartesian_product:
  "length (parameter_space tp) = prod_list (map (\<lambda>(k, vs). length vs) tp)
   \<and> set (parameter_space tp)
       = {c. length c = length tp \<and> (\<forall>i < length tp. c ! i \<in> set (snd (tp ! i)))}
   \<and> (\<forall>c \<in> set (parameter_space tp).
         length c = length tp \<and> map fst (params_of tp c) = map fst tp)
   \<and> parameter_space (tp @ [(k, vs)])
       = concat (map (\<lambda>c. map (\<lambda>v. c @ [v]) vs) (parameter_space tp))"
proof (intro conjI)
  have e: "(\<lambda>(k, vs). length vs) = length \<circ> (snd :: string \<times> param_value list \<Rightarrow> param_value list)"
    by auto
  show "length (parameter_space tp) = prod_list (map (\<lambda>(k, vs). length vs) tp)"
    by (simp add: parameter_space_def itertools_product_length e)
next
  show "set (parameter_space tp)
        = {c. length c = length tp \<and> (\<forall>i < length tp. c ! i \<in> set (snd (tp ! i)))}"
    by (auto simp: parameter_space_def itertools_product_set list_all2_conv_all_nth)
next
  show "\<forall>c \<in> set (parameter_space tp).
          length c = length tp \<and> map fst (params_of tp c) = map fst tp"
  proof
    fix c assume "c \<in> set (parameter_space tp)"
    then have "length c = length tp"
      by (simp add: parameter_space_def itertools_product_elem_length)
    then show "length c = length tp \<and> map fst (params_of tp c) = map fst tp"
      by (simp add: params_of_def)
  qed
next
  show "parameter_space (tp @ [(k, vs)])
        = concat (map (\<lambda>c. map (\<lambda>v. c @ [v]) vs) (parameter_space tp))"
    by (simp add: parameter_space_def itertools_product_snoc)
qed

theorem parameter_space_is_cartesian_product_witness:
  "length (parameter_space [(''block_size_x'', [IntV 32, IntV 64]), (''tile'', [IntV 1, IntV 2, IntV 3])]) = 6
   \<and> [IntV 64, IntV 2] \<in> set (parameter_space [(''block_size_x'', [IntV 32, IntV 64]), (''tile'', [IntV 1, IntV 2, IntV 3])])
   \<and> map fst (params_of [(''block_size_x'', [IntV 32, IntV 64]), (''tile'', [IntV 1, IntV 2, IntV 3])] [IntV 64, IntV 2])
       = [''block_size_x'', ''tile'']
   \<and> parameter_space [(''block_size_x'', [IntV 32, IntV 64]), (''tile'', [IntV 1, IntV 2, IntV 3])]
       = [[IntV 32, IntV 1], [IntV 32, IntV 2], [IntV 32, IntV 3],
          [IntV 64, IntV 1], [IntV 64, IntV 2], [IntV 64, IntV 3]]"
proof -
  let ?tp = "[(''block_size_x'', [IntV 32, IntV 64]), (''tile'', [IntV 1, IntV 2, IntV 3])]"
  have m: "[IntV 64, IntV 2] \<in> set (parameter_space ?tp)"
    by (simp add: parameter_space_def)
  from parameter_space_is_cartesian_product [of ?tp "''z''" "[]"]
  have "length (parameter_space ?tp) = prod_list (map (\<lambda>(k, vs). length vs) ?tp)"
    and "\<forall>c \<in> set (parameter_space ?tp).
           length c = length ?tp \<and> map fst (params_of ?tp c) = map fst ?tp"
    by blast+
  with m have "length (parameter_space ?tp) = 6"
    and "map fst (params_of ?tp [IntV 64, IntV 2]) = [''block_size_x'', ''tile'']"
    by auto
  moreover have "parameter_space ?tp
       = [[IntV 32, IntV 1], [IntV 32, IntV 2], [IntV 32, IntV 3],
          [IntV 64, IntV 1], [IntV 64, IntV 2], [IntV 64, IntV 3]]"
    by (simp add: parameter_space_def)
  ultimately show ?thesis using m by simp
qed



lemma foldl_prepend:
  "foldl (\<lambda>acc (k, v). f k v @ acc) init ps = concat (map (\<lambda>(k, v). f k v) (rev ps)) @ init"
  by (induction ps arbitrary: init) (auto)

text \<open>
  Claim C3, as amended. The specialised kernel text is, line by line: one define per
  configuration parameter in reverse key order (every define is prepended, so the last
  parameter comes first), then the define of \<open>grid_size_y\<close>, then the define of
  \<open>grid_size_x\<close>, then the original source unchanged. The order the claim states
  (grid sizes first, parameters in key order) is not what the code produces.
\<close>

theorem prepare_kernel_string_layout:
  "prepare_kernel_string original_kernel ps grid =
     concat (map (\<lambda>(k, v). ''#define '' @ k @ '' '' @ str_value v @ [CHR 0x0A]) (rev ps))
     @ ''#define grid_size_y '' @ str_int (snd grid) @ [CHR 0x0A]
     @ ''#define grid_size_x '' @ str_int (fst grid) @ [CHR 0x0A]
     @ original_kernel"
proof -
  have "foldl (\<lambda>acc (k, v). ''#define '' @ k @ '' '' @ str_value v @ [CHR 0x0A] @ acc) init ps
        = concat (map (\<lambda>(k, v). ''#define '' @ k @ '' '' @ str_value v @ [CHR 0x0A]) (rev ps)) @ init"
    for init
    using foldl_prepend [of "\<lambda>k v. ''#define '' @ k @ '' '' @ str_value v @ [CHR 0x0A]" init ps]
    by simp
  then show ?thesis by (simp add: prepare_kernel_string_def Let_def)
qed

theorem prepare_kernel_string_counterexample:
  "prepare_kernel_string ''K'' [(''block_size_x'', IntV 32), (''tile'', IntV 4)] (8, 2)
     = ''#define tile 4\<newline>#define block_size_x 32\<newline>#define grid_size_y 2\<newline>#define grid_size_x 8\<newline>K''
   \<and> claimed_kernel_string ''K'' [(''block_size_x'', IntV 32), (''tile'', IntV 4)] (8, 2)
     = ''#define grid_size_x 8\<newline>#define grid_size_y 2\<newline>#define block_size_x 32\<newline>#define tile 4\<newline>K''
   \<and> prepare_kernel_string ''K'' [(''block_size_x'', IntV 32), (''tile'', IntV 4)] (8, 2)
     \<noteq> claimed_kernel_string ''K'' [(''block_size_x'', IntV 32), (''tile'', IntV 4)] (8, 2)"
  by (simp add: prepare_kernel_string_def claimed_kernel_string_def str_int_def
      str_nat.simps digit_char_def)

section \<open>The robust average\<close>

lemma sorted_ends:
  fixes s :: "real list"
  assumes "sorted s" and "2 \<le> length s"
  shows "s = Min (set s) # butlast (tl s) @ [Max (set s)]"
proof -
  define a where "a = hd s"
  define t where "t = tl s"
  from assms(2) have "s \<noteq> []" by auto
  then have s: "s = a # t" by (simp add: a_def t_def)
  from assms(2) have "1 \<le> length t" by (simp add: t_def)
  then have "t \<noteq> []" by auto
  define m where "m = butlast t"
  define b where "b = last t"
  from \<open>t \<noteq> []\<close> have t: "t = m @ [b]" by (simp add: m_def b_def)
  from assms(1) have le_a: "\<forall>y \<in> set t. a \<le> y" and st: "sorted t" by (simp_all add: s)
  from st have le_b: "\<forall>x \<in> set m. x \<le> b" by (simp add: t sorted_append)
  have ab: "a \<le> b" using le_a by (simp add: t)
  have "Min (set s) = a"
  proof (rule Min_eqI)
    show "finite (set s)" by simp
    show "a \<in> set s" by (simp add: s)
    show "\<And>y. y \<in> set s \<Longrightarrow> a \<le> y" using le_a by (auto simp: s)
  qed
  moreover have "Max (set s) = b"
  proof (rule Max_eqI)
    show "finite (set s)" by simp
    show "b \<in> set s" by (simp add: s t)
    show "\<And>y. y \<in> set s \<Longrightarrow> y \<le> b" using le_b ab by (auto simp: s t)
  qed
  ultimately show ?thesis by (simp add: s t)
qed

lemma trimmed_sort:
  fixes xs :: "real list"
  assumes "2 \<le> length xs"
  shows "mset xs = {#Min (set xs)#} + mset (butlast (tl (sort xs))) + {#Max (set xs)#}"
    and "sum_list xs = Min (set xs) + sum_list (butlast (tl (sort xs))) + Max (set xs)"
    and "length (butlast (tl (sort xs))) = length xs - 2"
proof -
  have "sort xs = Min (set (sort xs)) # butlast (tl (sort xs)) @ [Max (set (sort xs))]"
    using assms by (intro sorted_ends) simp_all
  then have e: "sort xs = Min (set xs) # butlast (tl (sort xs)) @ [Max (set xs)]" by simp
  have "mset xs = mset (sort xs)" by simp
  also have "\<dots> = mset (Min (set xs) # butlast (tl (sort xs)) @ [Max (set xs)])"
    using e by simp
  finally show "mset xs = {#Min (set xs)#} + mset (butlast (tl (sort xs))) + {#Max (set xs)#}"
    by simp
  have "sum_list xs = sum_mset (mset (sort xs))" by (simp add: sum_mset_sum_list)
  also have "\<dots> = sum_list (sort xs)" by (simp only: sum_mset_sum_list)
  also have "\<dots> = sum_list (Min (set xs) # butlast (tl (sort xs)) @ [Max (set xs)])"
    using e by simp
  finally show "sum_list xs = Min (set xs) + sum_list (butlast (tl (sort xs))) + Max (set xs)"
    by simp
  show "length (butlast (tl (sort xs))) = length xs - 2" by simp
qed

lemma run_iterations_length:
  "run_iterations n func gs ls gpu_args acc mem = (Inr samples, mem')
   \<Longrightarrow> length samples = length acc + n"
proof (induction n arbitrary: acc mem)
  case 0
  then show ?case by simp
next
  case (Suc n)
  then show ?case by (auto split: prod.splits sum.splits)
qed

text \<open>
  Claim C4. With the default of 7 iterations, the OpenCL benchmark of one compiled
  configuration returns the arithmetic mean of the timing samples that remain after
  discarding exactly one minimum and exactly one maximum sample: the sum of the
  samples less their minimum and maximum, divided by 5. For the samples
  5, 1, 9, 3, 4, 2, 8 it returns the mean of 2, 3, 4, 5, 8.
\<close>

theorem benchmark_robust_average:
  assumes "run_iterations 7 func (global_size grid thr) thr gpu_args [] mem = (Inr samples, mem')"
  shows "length samples = 7
    \<and> ocl_benchmark (OpenCLFunctions mt build fill None) func gpu_args thr grid mem
        = (Inr (Float ((sum_list samples - Min (set samples) - Max (set samples)) / 5)), mem')
    \<and> mset (butlast (tl (sort samples)))
        = mset samples - {#Min (set samples)#} - {#Max (set samples)#}
    \<and> robust_average [5, 1, 9, 3, 4, 2, 8] = numpy_mean [2, 3, 4, 5, 8]"
proof -
  from assms have len: "length samples = 7" by (auto dest: run_iterations_length)
  then have two: "2 \<le> length samples" by simp
  note T = trimmed_sort [OF two]
  from T(3) len have l5: "length (butlast (tl (sort samples))) = 5" by simp
  have ne: "butlast (tl (sort samples)) \<noteq> []"
  proof
    assume e: "butlast (tl (sort samples)) = []"
    have "length (butlast (tl (sort samples))) = 0" unfolding e by simp
    with l5 show False by linarith
  qed
  from T(2) have "sum_list (butlast (tl (sort samples)))
      = sum_list samples - Min (set samples) - Max (set samples)" by simp
  with l5 ne have "robust_average samples
      = Float ((sum_list samples - Min (set samples) - Max (set samples)) / 5)"
    by (simp add: robust_average_def numpy_mean_def)
  with assms have b: "ocl_benchmark (OpenCLFunctions mt build fill None) func gpu_args thr grid mem
        = (Inr (Float ((sum_list samples - Min (set samples) - Max (set samples)) / 5)), mem')"
    by (simp add: ocl_benchmark_def OpenCLFunctions_def)
  have m: "mset (butlast (tl (sort samples)))
        = mset samples - {#Min (set samples)#} - {#Max (set samples)#}"
    by (subst T(1)) simp
  have c: "robust_average [5, 1, 9, 3, 4, 2, 8] = numpy_mean [2, 3, 4, 5, 8]"
    by (simp add: robust_average_def numpy_mean_def)
  from len b m c show ?thesis by simp
qed

theorem benchmark_robust_average_witness:
  "run_iterations 7 queue_kernel (global_size (4, 1) (IntV 32, IntV 1, IntV 1)) (IntV 32, IntV 1, IntV 1) []
       [] [[5000000, 1000000, 9000000, 3000000, 4000000, 2000000, 8000000]]
     = (Inr [5, 1, 9, 3, 4, 2, 8], [[]])
   \<and> ocl_benchmark (OpenCLFunctions 1024 (\<lambda>src name. Inr queue_kernel) (\<lambda>c v n. Inr c) None)
        queue_kernel [] (IntV 32, IntV 1, IntV 1) (4, 1)
        [[5000000, 1000000, 9000000, 3000000, 4000000, 2000000, 8000000]]
     = (Inr (Float (22 / 5)), [[]])"
proof -
  have r: "run_iterations 7 queue_kernel (global_size (4, 1) (IntV 32, IntV 1, IntV 1)) (IntV 32, IntV 1, IntV 1) []
       [] [[5000000, 1000000, 9000000, 3000000, 4000000, 2000000, 8000000]]
     = (Inr [5, 1, 9, 3, 4, 2, 8], [[]])"
    by (simp add: queue_kernel_def numeral_eq_Suc)
  have "Min (set [5, 1, 9, 3, 4, 2, 8 :: real]) = 1" "Max (set [5, 1, 9, 3, 4, 2, 8 :: real]) = 9"
    by simp_all
  with benchmark_robust_average [OF r, of 1024 "\<lambda>src name. Inr queue_kernel" "\<lambda>c v n. Inr c"] r
  show ?thesis by simp
qed

section \<open>The grid dimensions\<close>










section \<open>The restriction filter\<close>

lemma list_remove_first:
  assumes "\<And>a. a \<in> set pre \<Longrightarrow> \<not> list_all2 py_eq a x"
  shows "list_remove x (pre @ x # post) = Inr (pre @ post)"
  using assms
proof (induction pre)
  case Nil
  have "list_all2 py_eq x x" by (simp add: list_all2_same py_eq_def)
  then show ?case by simp
next
  case (Cons a pre)
  then show ?case by simp
qed

lemma restrict_space_filter_gen:
  assumes "\<And>a b. a \<in> set (seen @ todo) \<Longrightarrow> b \<in> set (seen @ todo) \<Longrightarrow> list_all2 py_eq a b \<Longrightarrow> a = b"
  shows "restrict_space ev rs tp todo
           (filter (\<lambda>el. check_restrictions ev rs (params_of tp el) = Inr ()) seen @ todo)
         = Inr (filter (\<lambda>el. check_restrictions ev rs (params_of tp el) = Inr ()) (seen @ todo))"
  using assms
proof (induction todo arbitrary: seen)
  case Nil
  show ?case by simp
next
  case (Cons el todo)
  define P where "P = (\<lambda>el. check_restrictions ev rs (params_of tp el) = Inr ())"
  have IH: "restrict_space ev rs tp todo (filter P (seen @ [el]) @ todo)
            = Inr (filter P ((seen @ [el]) @ todo))"
    unfolding P_def
  proof (rule Cons.IH)
    fix a b
    assume "a \<in> set ((seen @ [el]) @ todo)" "b \<in> set ((seen @ [el]) @ todo)" "list_all2 py_eq a b"
    then show "a = b" using Cons.prems [of a b] by simp
  qed
  show ?case
  proof (cases "P el")
    case True
    then have c: "check_restrictions ev rs (params_of tp el) = Inr ()" by (simp add: P_def)
    have "restrict_space ev rs tp (el # todo) (filter P seen @ el # todo)
          = restrict_space ev rs tp todo (filter P seen @ el # todo)"
      by (simp add: c)
    also have "\<dots> = Inr (filter P (seen @ el # todo))" using IH True by simp
    finally show ?thesis by (simp add: P_def)
  next
    case False
    then obtain e where e: "check_restrictions ev rs (params_of tp el) = Inl e"
      by (cases "check_restrictions ev rs (params_of tp el)") (auto simp: P_def)
    have "\<not> list_all2 py_eq a el" if a: "a \<in> set (filter P seen)" for a
    proof
      assume q: "list_all2 py_eq a el"
      from a have "a \<in> set (seen @ el # todo)" by simp
      moreover have "el \<in> set (seen @ el # todo)" by simp
      ultimately have "a = el" using q by (rule Cons.prems)
      with a False show False by simp
    qed
    then have rm: "list_remove el (filter P seen @ el # todo) = Inr (filter P seen @ todo)"
      by (rule list_remove_first)
    have "restrict_space ev rs tp (el # todo) (filter P seen @ el # todo)
          = restrict_space ev rs tp todo (filter P seen @ todo)"
      by (simp add: e rm)
    also have "\<dots> = Inr (filter P (seen @ el # todo))" using IH False by simp
    finally show ?thesis by (simp add: P_def)
  qed
qed

lemma restrict_space_filter:
  assumes "\<And>a b. a \<in> set space \<Longrightarrow> b \<in> set space \<Longrightarrow> list_all2 py_eq a b \<Longrightarrow> a = b"
  shows "restrict_space ev rs tp space space
         = Inr (filter (\<lambda>el. check_restrictions ev rs (params_of tp el) = Inr ()) space)"
  using restrict_space_filter_gen [of "[]" space ev rs tp] assms by simp

text \<open>
  Claim C2 fails on the code at the parameter domain \<open>{"x": [1, True]}\<close> with the
  restriction \<open>x0>5\<close>. The configuration \<open>x = 1\<close> passes (\<open>10>5\<close>), the configuration
  \<open>x = True\<close> raises (\<open>True0\<close> is an unbound name), and \<open>parameter_space.remove\<close> then
  removes the first element equal to \<open>(True,)\<close> under Python's \<open>==\<close>, which is
  \<open>(1,)\<close>: the passing configuration is dropped and the failing one is retained,
  compiled, benchmarked and recorded.
  (\<open>restrict_space_filter\<close> above: on a parameter space without two different elements
  that are equal under \<open>==\<close>, the loop retains exactly the passing configurations.)
\<close>

theorem restriction_filter_failing_input:
  "check_restrictions eval_fragment (Some [''x0>5'']) (params_of [(''x'', [IntV 1, BoolV True])] [IntV 1])
     = Inr ()
   \<and> check_restrictions eval_fragment (Some [''x0>5'']) (params_of [(''x'', [IntV 1, BoolV True])] [BoolV True])
     = Inl (Raise NameError (''name '' @ [CHR 0x27] @ ''True0'' @ [CHR 0x27] @ '' is not defined''))
   \<and> parameter_space [(''x'', [IntV 1, BoolV True])] = [[IntV 1], [BoolV True]]
   \<and> restrict_space eval_fragment (Some [''x0>5'']) [(''x'', [IntV 1, BoolV True])]
       (parameter_space [(''x'', [IntV 1, BoolV True])]) (parameter_space [(''x'', [IntV 1, BoolV True])])
     = Inr [[BoolV True]]
   \<and> tune_kernel (sim_device 1024 (writes 1024) 1) (sim_device 1024 (writes 1024) 1)
       (sim_device 1024 (writes 1024) 1) eval_fragment
       (vector_add_call\<lparr>tune_params := [(''x'', [IntV 1, BoolV True])],
          restrictions := Some [''x0>5''], answer := None\<rparr>) []
     = Inr [(''True'', Float 1)]"
proof -
  have r1: "replace_param_occurrences ''x0>5'' [(''x'', IntV 1)] = ''10>5''"
    by (simp add: replace_param_occurrences_def str_replace_def str_int_def str_nat.simps
      digit_char_def)
  have r2: "replace_param_occurrences ''x0>5'' [(''x'', BoolV True)] = ''True0>5''"
    by (simp add: replace_param_occurrences_def str_replace_def)
  have e1: "eval_fragment ''10>5'' = Inr (PBool True)"
    by (simp add: eval_fragment_def eval_atom_def is_atom_char_def is_digit_def
      is_name_start_def nat_of_digits_def digit_val_def split_operator_def compare_op_def
      is_syntax_error_def)
  have e2: "eval_fragment ''True0>5''
      = Inl (Raise NameError (''name '' @ [CHR 0x27] @ ''True0'' @ [CHR 0x27] @ '' is not defined''))"
    by (simp add: eval_fragment_def eval_atom_def is_atom_char_def is_digit_def
      is_name_start_def nat_of_digits_def digit_val_def split_operator_def compare_op_def
      is_syntax_error_def)
  have c1: "check_restrictions eval_fragment (Some [''x0>5'']) [(''x'', IntV 1)] = Inr ()"
    by (simp add: check_restrictions_def r1 e1)
  have c2: "check_restrictions eval_fragment (Some [''x0>5'']) [(''x'', BoolV True)]
      = Inl (Raise NameError (''name '' @ [CHR 0x27] @ ''True0'' @ [CHR 0x27] @ '' is not defined''))"
    by (simp add: check_restrictions_def r2 e2)
  have p: "parameter_space [(''x'', [IntV 1, BoolV True])] = [[IntV 1], [BoolV True]]"
    by (simp add: parameter_space_def)
  have "restrict_space eval_fragment (Some [''x0>5'']) [(''x'', [IntV 1, BoolV True])]
       [[IntV 1], [BoolV True]] [[IntV 1], [BoolV True]] = Inr [[BoolV True]]"
    using c1 c2 by (simp add: params_of_def py_eq_def)
  moreover have "tune_kernel (sim_device 1024 (writes 1024) 1) (sim_device 1024 (writes 1024) 1)
       (sim_device 1024 (writes 1024) 1) eval_fragment
       (vector_add_call\<lparr>tune_params := [(''x'', [IntV 1, BoolV True])],
          restrictions := Some [''x0>5''], answer := None\<rparr>) []
     = Inr [(''True'', Float 1)]"
    by code_simp
  ultimately show ?thesis using c1 c2 p by (simp add: params_of_def)
qed

section \<open>The sweep\<close>

lemma sweep_append:
  "sweep J dev ev gpu_args (xs @ ys) st =
     (case sweep J dev ev gpu_args xs st of
        Inl e \<Rightarrow> Inl e
      | Inr st' \<Rightarrow> sweep J dev ev gpu_args ys st')"
  by (induction xs arbitrary: st) (auto split: sum.splits)

lemma sweep_abort_at:
  assumes "sweep J dev ev gpu_args pre st0 = Inr st"
    and "tune_iteration J dev ev gpu_args element st = Inl e"
  shows "sweep J dev ev gpu_args (pre @ element # post) st0 = Inl e"
  using assms by (simp add: sweep_append)

lemma tune_kernel_state_unfold:
  assumes "get_device_interface (detect_language (lang J) (kernel_string J)) cuda opencl cfunctions
           = Inr dev"
    and "dev_ready_argument_list dev (arguments J) d0 = (Inr gpu_args, d1)"
    and "restrict_space ev (restrictions J) (tune_params J) (parameter_space (tune_params J))
           (parameter_space (tune_params J)) = Inr space"
  shows "tune_kernel_state cuda opencl cfunctions ev J d0
         = sweep J dev ev gpu_args space \<lparr>results = [], compile_calls = [], dev_state = d1\<rparr>"
  using assms by (simp add: tune_kernel_state_def)














section \<open>Exceptions in the grid computation\<close>




lemma tune_kernel_aborts:
  assumes "get_device_interface (detect_language (lang J) (kernel_string J)) cuda opencl cfunctions
           = Inr dev"
    and "dev_ready_argument_list dev (arguments J) d0 = (Inr gpu_args, d1)"
    and "restrict_space ev (restrictions J) (tune_params J) (parameter_space (tune_params J))
           (parameter_space (tune_params J)) = Inr (pre @ element # post)"
    and "sweep J dev ev gpu_args pre \<lparr>results = [], compile_calls = [], dev_state = d1\<rparr> = Inr st"
    and "tune_iteration J dev ev gpu_args element st = Inl e"
  shows "tune_kernel cuda opencl cfunctions ev J d0 = Inl e"
proof -
  from sweep_abort_at [OF assms(4,5)]
  have "sweep J dev ev gpu_args (pre @ element # post)
          \<lparr>results = [], compile_calls = [], dev_state = d1\<rparr> = Inl e" .
  with tune_kernel_state_unfold [OF assms(1-3)]
  have "tune_kernel_state cuda opencl cfunctions ev J d0 = Inl e" by simp
  then show ?thesis by (simp add: tune_kernel_def)
qed




section \<open>The correctness check\<close>

lemma str_contains_subset: "str_contains s sub \<Longrightarrow> set sub \<subseteq> set s"
proof (induction s)
  case Nil
  then show ?case by simp
next
  case (Cons c cs)
  from Cons.prems have "take (length sub) (c # cs) = sub \<or> str_contains cs sub" by simp
  then show ?case
  proof
    assume "take (length sub) (c # cs) = sub"
    then have "set sub = set (take (length sub) (c # cs))" by simp
    also have "\<dots> \<subseteq> set (c # cs)" by (rule set_take_subset)
    finally show ?thesis .
  next
    assume "str_contains cs sub"
    then have "set sub \<subseteq> set cs" by (rule Cons.IH)
    then show ?thesis by auto
  qed
qed

lemma str_join_chars: "set (str_join sep xs) \<subseteq> set sep \<union> \<Union> (set ` set xs)"
  by (induction sep xs rule: str_join.induct) auto

lemma instance_string_no_char:
  assumes "c \<notin> set ''-0123456789TrueFals_''"
  shows "c \<notin> set (instance_string ps)"
proof
  assume "c \<in> set (instance_string ps)"
  then have "c \<in> set ''_'' \<union> \<Union> (set ` set (map (\<lambda>(k, v). str_value v) ps))"
    unfolding instance_string_def using str_join_chars by (rule rev_subsetD)
  then have "c = CHR ''_'' \<or> (\<exists>v. c \<in> set (str_value v))" by auto
  then show False
  proof
    assume "c = CHR ''_''"
    with assms show False by simp
  next
    assume "\<exists>v. c \<in> set (str_value v)"
    then obtain v where "c \<in> set (str_value v)" by blast
    then have "c \<in> set ''-0123456789TrueFals''" using str_value_chars by (rule rev_subsetD)
    with assms show False by simp
  qed
qed

lemma correctness_message_not_resources:
  "\<not> str_contains (''Error '' @ instance_string ps @ '' failed correctness check'')
        ''too many resources requested for launch''"
  "\<not> str_contains (''Error '' @ instance_string ps @ '' failed correctness check'')
        ''OUT_OF_RESOURCES''"
proof -
  have q: "CHR ''q'' \<notin> set (''Error '' @ instance_string ps @ '' failed correctness check'')"
    using instance_string_no_char [of "CHR ''q''" ps] by simp
  have O: "CHR ''O'' \<notin> set (''Error '' @ instance_string ps @ '' failed correctness check'')"
    using instance_string_no_char [of "CHR ''O''" ps] by simp
  show "\<not> str_contains (''Error '' @ instance_string ps @ '' failed correctness check'')
        ''too many resources requested for launch''"
  proof
    assume "str_contains (''Error '' @ instance_string ps @ '' failed correctness check'')
        ''too many resources requested for launch''"
    then have "set ''too many resources requested for launch''
        \<subseteq> set (''Error '' @ instance_string ps @ '' failed correctness check'')"
      by (rule str_contains_subset)
    moreover have "CHR ''q'' \<in> set ''too many resources requested for launch''" by simp
    ultimately have "CHR ''q'' \<in> set (''Error '' @ instance_string ps @ '' failed correctness check'')"
      by (rule rev_subsetD [rotated])
    with q show False by simp
  qed
  show "\<not> str_contains (''Error '' @ instance_string ps @ '' failed correctness check'')
        ''OUT_OF_RESOURCES''"
  proof
    assume "str_contains (''Error '' @ instance_string ps @ '' failed correctness check'')
        ''OUT_OF_RESOURCES''"
    then have "set ''OUT_OF_RESOURCES''
        \<subseteq> set (''Error '' @ instance_string ps @ '' failed correctness check'')"
      by (rule str_contains_subset)
    moreover have "CHR ''O'' \<in> set ''OUT_OF_RESOURCES''" by simp
    ultimately have "CHR ''O'' \<in> set (''Error '' @ instance_string ps @ '' failed correctness check'')"
      by (rule rev_subsetD [rotated])
    with O show False by simp
  qed
qed

lemma compare_results_reads:
  assumes "\<forall>(g, a) \<in> set pairs. \<forall>x. a = Some x \<longrightarrow>
             (\<exists>h. dev_memcpy_dtoh dev (zeros_like x) g d = (Inr h, d)
                  \<and> length (ravel h) = length (ravel x))"
  shows "compare_results dev pairs c d =
           (Inr (c \<and> (\<forall>(g, a) \<in> set pairs. \<forall>x h. a = Some x \<longrightarrow>
                        dev_memcpy_dtoh dev (zeros_like x) g d = (Inr h, d) \<longrightarrow>
                        list_all2 isclose (ravel h) (ravel x))), d)"
  using assms
proof (induction pairs arbitrary: c)
  case Nil
  show ?case by simp
next
  case (Cons p pairs)
  obtain g a where p: "p = (g, a)" by (cases p)
  from Cons.prems have rest: "\<forall>(g, a) \<in> set pairs. \<forall>x. a = Some x \<longrightarrow>
             (\<exists>h. dev_memcpy_dtoh dev (zeros_like x) g d = (Inr h, d)
                  \<and> length (ravel h) = length (ravel x))"
    by simp
  note IH = Cons.IH [OF rest]
  show ?case
  proof (cases a)
    case None
    with p IH [of c] show ?thesis by simp
  next
    case (Some x)
    with Cons.prems p obtain h where h: "dev_memcpy_dtoh dev (zeros_like x) g d = (Inr h, d)"
      and len: "length (ravel h) = length (ravel x)"
      by auto
    from len have ac: "allclose (ravel h) (ravel x) = Inr (list_all2 isclose (ravel h) (ravel x))"
      by (simp add: allclose_def)
    show ?thesis
    proof (cases c)
      case True
      with p Some h ac IH [of "list_all2 isclose (ravel h) (ravel x)"] show ?thesis
        by auto
    next
      case False
      with p Some h IH [of False] show ?thesis by simp
    qed
  qed
qed

lemma check_kernel_correctness_mismatch:
  assumes "zero_checked dev (zip gpu_args ans) d3 = (Inr (), d4)"
    and "dev_run_kernel dev func gpu_args thr grid d4 = (Inr (), d5)"
    and "\<forall>(g, a) \<in> set (zip gpu_args ans). \<forall>x. a = Some x \<longrightarrow>
             (\<exists>h. dev_memcpy_dtoh dev (zeros_like x) g d5 = (Inr h, d5)
                  \<and> length (ravel h) = length (ravel x))"
    and "\<exists>(g, a) \<in> set (zip gpu_args ans). \<exists>x h. a = Some x
             \<and> dev_memcpy_dtoh dev (zeros_like x) g d5 = (Inr h, d5)
             \<and> \<not> list_all2 isclose (ravel h) (ravel x)"
  shows "check_kernel_correctness dev func gpu_args thr grid ans inst d3
         = (Inl (Raise Exception (''Error '' @ inst @ '' failed correctness check'')), d5)"
proof -
  from assms(4) have "\<not> (\<forall>(g, a) \<in> set (zip gpu_args ans). \<forall>x h. a = Some x \<longrightarrow>
                        dev_memcpy_dtoh dev (zeros_like x) g d5 = (Inr h, d5) \<longrightarrow>
                        list_all2 isclose (ravel h) (ravel x))"
    by blast
  with compare_results_reads [OF assms(3), of True]
  have "compare_results dev (zip gpu_args ans) True d5 = (Inr False, d5)" by simp
  with assms(1,2) show ?thesis by (simp add: check_kernel_correctness_def)
qed

text \<open>
  Claim C6, as amended. In a sweep with an answer, when a configuration is reached,
  compiled and run by the check, the copies back to the host succeed, and for some
  checked argument an element \<open>r\<close> of the copied-back array and the expected element
  \<open>e\<close> have \<open>|r - e| > 1e-6 + 1e-5 * |e|\<close>, then \<open>tune_kernel\<close> raises the exception
  \<open>Error <identity> failed correctness check\<close> naming that configuration; no results are
  returned, so the configuration is not recorded and no later configuration is tried.
  The tolerance is not the absolute 1e-6 alone: \<open>numpy.allclose\<close> adds its default
  relative tolerance.
\<close>

theorem correctness_mismatch_aborts:
  assumes "get_device_interface (detect_language (lang J) (kernel_string J)) cuda opencl cfunctions
           = Inr dev"
    and "dev_ready_argument_list dev (arguments J) d0 = (Inr gpu_args, d1)"
    and "restrict_space ev (restrictions J) (tune_params J) (parameter_space (tune_params J))
           (parameter_space (tune_params J)) = Inr (pre @ element # post)"
    and "sweep J dev ev gpu_args pre \<lparr>results = [], compile_calls = [], dev_state = d1\<rparr> = Inr st"
    and "\<not> prod_threads (get_thread_block_dimensions (params_of (tune_params J) element))
           > dev_max_threads dev"
    and "get_grid_dimensions ev (problem_size J) (params_of (tune_params J) element)
           (grid_div_y J) (grid_div_x J) = Inr grid"
    and "dev_compile dev (kernel_name J @ ''_'' @ instance_string (params_of (tune_params J) element))
           (str_replace (prepare_kernel_string (kernel_string J) (params_of (tune_params J) element) grid)
              (kernel_name J)
              (kernel_name J @ ''_'' @ instance_string (params_of (tune_params J) element)))
           (dev_state st) = (Inr func, d2)"
    and "(case cmem_args J of None \<Rightarrow> (Inr (), d2)
          | Some c \<Rightarrow> dev_copy_constant_memory_args dev c d2) = (Inr (), d3)"
    and "answer J = Some ans"
    and "zero_checked dev (zip gpu_args ans) d3 = (Inr (), d4)"
    and "dev_run_kernel dev func gpu_args
           (get_thread_block_dimensions (params_of (tune_params J) element)) grid d4 = (Inr (), d5)"
    and "\<forall>(g, a) \<in> set (zip gpu_args ans). \<forall>x. a = Some x \<longrightarrow>
             (\<exists>h. dev_memcpy_dtoh dev (zeros_like x) g d5 = (Inr h, d5)
                  \<and> length (ravel h) = length (ravel x))"
    and "\<exists>(g, a) \<in> set (zip gpu_args ans). \<exists>x h. a = Some x
             \<and> dev_memcpy_dtoh dev (zeros_like x) g d5 = (Inr h, d5)
             \<and> \<not> list_all2 (\<lambda>r e. \<bar>r - e\<bar> \<le> 1 / 1000000 + (1 / 100000) * \<bar>e\<bar>) (ravel h) (ravel x)"
  shows "tune_kernel cuda opencl cfunctions ev J d0
         = Inl (Raise Exception (''Error '' @ instance_string (params_of (tune_params J) element)
                                  @ '' failed correctness check''))"
proof -
  let ?ps = "params_of (tune_params J) element"
  let ?thr = "get_thread_block_dimensions ?ps"
  let ?msg = "''Error '' @ instance_string ?ps @ '' failed correctness check''"
  have ic: "isclose = (\<lambda>r e. \<bar>r - e\<bar> \<le> 1 / 1000000 + (1 / 100000) * \<bar>e\<bar>)"
    by (intro ext) (simp add: isclose_def)
  from assms(13) have mm: "\<exists>(g, a) \<in> set (zip gpu_args ans). \<exists>x h. a = Some x
             \<and> dev_memcpy_dtoh dev (zeros_like x) g d5 = (Inr h, d5)
             \<and> \<not> list_all2 isclose (ravel h) (ravel x)"
    by (simp only: ic)
  have chk: "check_kernel_correctness dev func gpu_args ?thr grid ans (instance_string ?ps) d3
             = (Inl (Raise Exception ?msg), d5)"
    using assms(10,11,12) mm by (rule check_kernel_correctness_mismatch)
  then have cb: "check_and_benchmark dev func gpu_args ?thr grid (answer J) (instance_string ?ps) d3
             = (Inl (Raise Exception ?msg), d5)"
    by (simp add: check_and_benchmark_def assms(9))
  have "tune_iteration J dev ev gpu_args element st = Inl (Raise Exception ?msg)"
    unfolding tune_iteration_def Let_def
    using assms(5,6,7,8) cb correctness_message_not_resources [of ?ps]
    by simp
  with assms(1-4) show ?thesis by (rule tune_kernel_aborts)
qed

theorem correctness_mismatch_aborts_witness:
  "tune_kernel (sim_device 1024 (writes 2) 1) (sim_device 1024 (writes 2) 1)
     (sim_device 1024 (writes 2) 1) eval_fragment vector_add_call []
   = Inl (Raise Exception ''Error 32 failed correctness check'')
   \<and> answer vector_add_call = Some [Some (Array [1024]), None]
   \<and> dev_memcpy_dtoh (sim_device 1024 (writes 2) 1) (zeros_like (Array [1024])) (Buffer 0) [[2]]
     = (Inr (Array [2]), [[2]])
   \<and> \<not> \<bar>2 - 1024\<bar> \<le> 1 / 1000000 + (1 / 100000) * \<bar>1024 :: real\<bar>"
proof -
  let ?dev = "sim_device 1024 (writes 2) 1"
  let ?J = "vector_add_call"
  have d: "get_device_interface (detect_language (lang ?J) (kernel_string ?J)) ?dev ?dev ?dev
           = Inr ?dev"
    by (simp add: get_device_interface_def detect_language_def vector_add_call_def)
  have a: "dev_ready_argument_list ?dev (arguments ?J) [] = (Inr [Buffer 0, ByValue 3], [[0]])"
    by code_simp
  have r: "restrict_space eval_fragment (restrictions ?J) (tune_params ?J)
             (parameter_space (tune_params ?J)) (parameter_space (tune_params ?J))
           = Inr ([] @ [IntV 32] # [[IntV 2048]])"
    by code_simp
  have p: "sweep ?J ?dev eval_fragment [Buffer 0, ByValue 3] []
             \<lparr>results = [], compile_calls = [], dev_state = [[0]]\<rparr>
           = Inr \<lparr>results = [], compile_calls = [], dev_state = [[0]]\<rparr>"
    by simp
  have t: "\<not> prod_threads (get_thread_block_dimensions (params_of (tune_params ?J) [IntV 32]))
             > dev_max_threads ?dev"
    by code_simp
  have g: "get_grid_dimensions eval_fragment (problem_size ?J) (params_of (tune_params ?J) [IntV 32])
           (grid_div_y ?J) (grid_div_x ?J) = Inr (2, 1)"
    by code_simp
  have c: "dev_compile ?dev (kernel_name ?J @ ''_'' @ instance_string (params_of (tune_params ?J) [IntV 32]))
           (str_replace (prepare_kernel_string (kernel_string ?J) (params_of (tune_params ?J) [IntV 32]) (2, 1))
              (kernel_name ?J)
              (kernel_name ?J @ ''_'' @ instance_string (params_of (tune_params ?J) [IntV 32])))
           (dev_state \<lparr>results = [], compile_calls = [], dev_state = [[0]]\<rparr>)
         = (Inr ''vector_add_32'', [[0]])"
    by code_simp
  have m: "(case cmem_args ?J of None \<Rightarrow> (Inr (), [[0]])
          | Some c \<Rightarrow> dev_copy_constant_memory_args ?dev c [[0]]) = (Inr (), [[0]])"
    by (simp add: vector_add_call_def)
  have an: "answer ?J = Some [Some (Array [1024]), None]"
    by (simp add: vector_add_call_def)
  have z: "zero_checked ?dev (zip [Buffer 0, ByValue 3] [Some (Array [1024]), None]) [[0]]
           = (Inr (), [[0]])"
    by code_simp
  have k: "dev_run_kernel ?dev ''vector_add_32'' [Buffer 0, ByValue 3]
           (get_thread_block_dimensions (params_of (tune_params ?J) [IntV 32])) (2, 1) [[0]]
           = (Inr (), [[2]])"
    by code_simp
  have cp: "dev_memcpy_dtoh ?dev (zeros_like (Array [1024])) (Buffer 0) [[2]]
            = (Inr (Array [2]), [[2]])"
    by code_simp
  have rb: "\<forall>(g, a) \<in> set (zip [Buffer 0, ByValue 3] [Some (Array [1024]), None]). \<forall>x. a = Some x \<longrightarrow>
             (\<exists>h. dev_memcpy_dtoh ?dev (zeros_like x) g [[2]] = (Inr h, [[2]])
                  \<and> length (ravel h) = length (ravel x))"
    using cp by simp
  have far: "\<not> \<bar>2 - 1024\<bar> \<le> 1 / 1000000 + (1 / 100000) * \<bar>1024 :: real\<bar>" by simp
  have mm: "\<exists>(g, a) \<in> set (zip [Buffer 0, ByValue 3] [Some (Array [1024]), None]). \<exists>x h. a = Some x
             \<and> dev_memcpy_dtoh ?dev (zeros_like x) g [[2]] = (Inr h, [[2]])
             \<and> \<not> list_all2 (\<lambda>r e. \<bar>r - e\<bar> \<le> 1 / 1000000 + (1 / 100000) * \<bar>e\<bar>) (ravel h) (ravel x)"
    using cp by simp
  have i: "instance_string (params_of (tune_params ?J) [IntV 32]) = ''32''" by code_simp
  from correctness_mismatch_aborts [OF d a r p t g c m an z k rb mm]
  have "tune_kernel ?dev ?dev ?dev eval_fragment ?J []
        = Inl (Raise Exception ''Error 32 failed correctness check'')"
    unfolding i by simp
  with an cp far show ?thesis by blast
qed

theorem correctness_tolerance_counterexample:
  "answer vector_add_call = Some [Some (Array [1024]), None]
   \<and> tune_kernel_state (sim_device 1024 (writes (1024 + 1 / 128)) 1)
       (sim_device 1024 (writes (1024 + 1 / 128)) 1) (sim_device 1024 (writes (1024 + 1 / 128)) 1)
       eval_fragment vector_add_call []
     = Inr \<lparr>results = [(''32'', Float 1)], compile_calls = [''vector_add_32''],
            dev_state = [[1024 + 1 / 128]]\<rparr>
   \<and> \<bar>(1024 + 1 / 128) - 1024\<bar> > (1 / 1000000 :: real)"
  by code_simp

section \<open>Copying the arguments back in \<open>run_kernel\<close>\<close>






end
